theory Spec2Isabelle
  imports Main
begin

section \<open>Data model of the credential selector\<close>

text \<open>
  The component \<^verbatim>\<open>CredentialSelector\<close> of \<^verbatim>\<open>credential-selector.tsx\<close> keeps a
  cached list of credentials and the id of the selected one. A credential is the object
  \<^verbatim>\<open>{ id, name, provider, isDefault }\<close>; JavaScript strings are modelled as
  \<^typ>\<open>string\<close>, and the only falsy string is the empty one.
\<close>

record credential =
  cred_id :: string
  cred_name :: string
  cred_provider :: string
  isDefault :: bool

text \<open>
  The properties of the component that the resolution logic reads. \<^verbatim>\<open>serviceId\<close> is
  optional (\<open>None\<close> is \<^verbatim>\<open>undefined\<close>); \<^verbatim>\<open>requiredScopes\<close> defaults to the empty list.
  The callback \<^verbatim>\<open>onChange\<close> is modelled by the trace of its calls in the state below.
\<close>

record props =
  prop_value :: string
  provider :: string
  requiredScopes :: "string list"
  serviceId :: "string option"
  label :: string
  disabled :: bool

text \<open>What a \<^verbatim>\<open>catch\<close> block of the sources can receive.\<close>

datatype js_error =
  FetchRejected
  | JsonRejected
  | Thrown string

text \<open>
  The cells of \<^verbatim>\<open>useState\<close> that \<^verbatim>\<open>fetchCredentials\<close> writes, together with the two
  effects it has on the outside: the calls of \<^verbatim>\<open>onChange\<close> (oldest first) and the lines
  written with \<^verbatim>\<open>console.error\<close>.
\<close>

record selector =
  selectedId :: string
  credentials :: "credential list"
  isLoading :: bool
  onChange_calls :: "string list"
  console_errors :: "(string \<times> js_error) list"

subsection \<open>The OAuth library\<close>

text \<open>
  The module \<^verbatim>\<open>@/lib/oauth\<close> is imported by the component and lies outside the
  three files modelled here. Its registry and its four functions are parameters of the model, with
  the shapes the component uses: a registry entry has a \<^verbatim>\<open>name\<close>, an \<^verbatim>\<open>icon\<close> and a
  \<^verbatim>\<open>services\<close> object, whose entries (in insertion order) have a \<^verbatim>\<open>name\<close>, a
  \<^verbatim>\<open>providerId\<close> and an \<^verbatim>\<open>icon\<close>. The two functions the component calls inside a
  \<^verbatim>\<open>try\<close> of their own may throw.
\<close>

type_synonym icon_component = string

record oauth_service =
  service_name :: string
  providerId :: string
  service_icon :: icon_component

record oauth_provider_config =
  provider_name :: string
  provider_icon :: icon_component
  services :: "(string \<times> oauth_service) list"

record parsed_provider =
  baseProvider :: string

record oauth_lib =
  OAUTH_PROVIDERS :: "string \<rightharpoonup> oauth_provider_config"
  getProviderIdFromServiceId :: "string \<Rightarrow> string"
  getServiceByProviderAndId :: "string \<Rightarrow> string \<Rightarrow> js_error + oauth_service"
  getServiceIdFromScopes :: "string \<Rightarrow> string list \<Rightarrow> string"
  parseProvider :: "string \<Rightarrow> js_error + parsed_provider"

subsection \<open>Service id and provider id\<close>

text \<open>
  \<^verbatim>\<open>if (serviceId) return serviceId\<close>: the test is JavaScript truthiness, so both
  \<^verbatim>\<open>undefined\<close> and the empty string fall through to the scopes.
\<close>

definition getServiceId :: "oauth_lib \<Rightarrow> props \<Rightarrow> string" where
  "getServiceId lib p =
     (case serviceId p of
        Some s \<Rightarrow> if s \<noteq> [] then s
                  else getServiceIdFromScopes lib (provider p) (requiredScopes p)
      | None \<Rightarrow> getServiceIdFromScopes lib (provider p) (requiredScopes p))"

definition getProviderId :: "oauth_lib \<Rightarrow> props \<Rightarrow> string" where
  "getProviderId lib p = getProviderIdFromServiceId lib (getServiceId lib p)"

subsection \<open>Fetching the credentials\<close>

text \<open>
  \<^verbatim>\<open>fetch(url)\<close> either rejects or resolves to a response with its \<^verbatim>\<open>ok\<close> flag;
  \<^verbatim>\<open>response.json()\<close> either rejects (\<open>None\<close>) or resolves to the body
  \<^verbatim>\<open>{ credentials: Credential[] }\<close> of the endpoint, of which only the list is read.
\<close>

datatype fetch_result =
  NetworkError
  | Response bool "credential list option"

definition credentials_url :: "string \<Rightarrow> string" where
  "credentials_url pid = ''/api/auth/oauth/credentials?provider='' @ pid"

definition log_error :: "js_error \<Rightarrow> selector \<Rightarrow> selector" where
  "log_error e st =
     st\<lparr>console_errors := console_errors st @ [(''Error fetching credentials:'', e)]\<rparr>"

text \<open>
  Lines 78 to 81. \<open>sel\<close> is the \<^verbatim>\<open>selectedId\<close> captured by the callback's closure: it
  is the value of the render that created the callback, and \<^verbatim>\<open>setSelectedId\<close> does not
  change it while the callback runs.
\<close>

definition reset_missing :: "string \<Rightarrow> credential list \<Rightarrow> selector \<Rightarrow> selector" where
  "reset_missing sel creds st =
     (if sel \<noteq> [] \<and> \<not> list_ex (\<lambda>cred. cred_id cred = sel) creds
      then st\<lparr>selectedId := [], onChange_calls := onChange_calls st @ [[]]\<rparr>
      else st)"

text \<open>Lines 87 to 100, with the same captured \<open>sel\<close>.\<close>

definition auto_select :: "string \<Rightarrow> credential list \<Rightarrow> selector \<Rightarrow> selector" where
  "auto_select sel creds st =
     (if (sel = [] \<or> \<not> list_ex (\<lambda>cred. cred_id cred = sel) creds) \<and> 0 < length creds
      then (case find isDefault creds of
              Some defaultCred \<Rightarrow>
                st\<lparr>selectedId := cred_id defaultCred,
                   onChange_calls := onChange_calls st @ [cred_id defaultCred]\<rparr>
            | None \<Rightarrow>
                if length creds = 1
                then st\<lparr>selectedId := cred_id (creds ! 0),
                        onChange_calls := onChange_calls st @ [cred_id (creds ! 0)]\<rparr>
                else st)
      else st)"

text \<open>
  The callback itself: \<^verbatim>\<open>setIsLoading(true)\<close>, the \<^verbatim>\<open>try\<close> with its \<^verbatim>\<open>catch\<close>, and
  \<^verbatim>\<open>setIsLoading(false)\<close> in the \<^verbatim>\<open>finally\<close>. A response that is not \<^verbatim>\<open>ok\<close> skips
  the body of the \<^verbatim>\<open>if\<close> and is not an exception.
\<close>

definition fetchCredentials ::
    "oauth_lib \<Rightarrow> props \<Rightarrow> (string \<Rightarrow> fetch_result) \<Rightarrow> selector \<Rightarrow> selector" where
  "fetchCredentials lib p fetch st =
     (let sel = selectedId st;
          st1 = st\<lparr>isLoading := True\<rparr>;
          pid = getProviderId lib p;
          st2 = (case fetch (credentials_url pid) of
                   NetworkError \<Rightarrow> log_error FetchRejected st1
                 | Response ok body \<Rightarrow>
                     if ok
                     then (case body of
                             None \<Rightarrow> log_error JsonRejected st1
                           | Some creds \<Rightarrow>
                               auto_select sel creds
                                 (reset_missing sel creds (st1\<lparr>credentials := creds\<rparr>)))
                     else st1)
      in st2\<lparr>isLoading := False\<rparr>)"

section \<open>Reading a property of an object literal\<close>

text \<open>
  The two tables of the sources, \<^verbatim>\<open>OAUTH_PROVIDERS\<close> and \<^verbatim>\<open>MODEL_TOOLS\<close>, are ordinary
  objects read with \<^verbatim>\<open>table[key]\<close>. Such a read finds the table's own property, and
  failing that the member of that name that every ordinary object inherits from
  \<^verbatim>\<open>Object.prototype\<close>, and only failing both is \<^verbatim>\<open>undefined\<close>. A table is modelled by
  the map of its own properties; the inherited members are the twelve names below.
\<close>

datatype 'a property = Undefined | Own 'a | Inherited string

definition Object_prototype :: "string list" where
  "Object_prototype =
     [''constructor'', ''__defineGetter__'', ''__defineSetter__'', ''hasOwnProperty'',
      ''__lookupGetter__'', ''__lookupSetter__'', ''isPrototypeOf'',
      ''propertyIsEnumerable'', ''toString'', ''valueOf'', ''__proto__'',
      ''toLocaleString'']"

definition property_read :: "(string \<rightharpoonup> 'a) \<Rightarrow> string \<Rightarrow> 'a property" where
  "property_read table key =
     (case table key of
        Some v \<Rightarrow> Own v
      | None \<Rightarrow> if key \<in> set Object_prototype then Inherited key else Undefined)"

text \<open>
  Every inherited member is truthy: eleven are functions and \<^verbatim>\<open>__proto__\<close> is the object
  \<^verbatim>\<open>Object.prototype\<close> itself. None of them has a property \<^verbatim>\<open>services\<close> or \<^verbatim>\<open>icon\<close>.
  The property \<^verbatim>\<open>name\<close> of a function is the function's name, which is \<^verbatim>\<open>Object\<close> for
  \<^verbatim>\<open>constructor\<close> and the member's own name for the other ten; \<^verbatim>\<open>Object.prototype\<close> has
  none (\<open>None\<close> is \<^verbatim>\<open>undefined\<close>).
\<close>

definition inherited_name :: "string \<Rightarrow> string option" where
  "inherited_name member =
     (if member = ''__proto__'' then None
      else if member = ''constructor'' then Some ''Object''
      else Some member)"

section \<open>Provider icon and provider name\<close>

subsection \<open>String helpers\<close>

text \<open>
  \<^verbatim>\<open>s.split('-')\<close> always returns at least one segment, and \<^verbatim>\<open>parts.join(' ')\<close> puts
  the separator between neighbours only. A character stands for one code unit of the
  JavaScript string. What \<^verbatim>\<open>toUpperCase\<close> makes of a string of one code unit is a table
  of the runtime and a parameter \<open>upper\<close> of the model: it may be longer than one code unit
  (U+00DF becomes \<^verbatim>\<open>SS\<close>).
\<close>

fun js_split :: "char \<Rightarrow> string \<Rightarrow> string list" where
  "js_split sep [] = [[]]"
| "js_split sep (c # cs) =
     (if c = sep then [] # js_split sep cs
      else (case js_split sep cs of
              [] \<Rightarrow> [[c]]
            | part # parts \<Rightarrow> (c # part) # parts))"

fun js_join :: "string \<Rightarrow> string list \<Rightarrow> string" where
  "js_join sep [] = []"
| "js_join sep [part] = part"
| "js_join sep (part # parts) = part @ sep @ js_join sep parts"

text \<open>\<^verbatim>\<open>part.charAt(0).toUpperCase() + part.slice(1)\<close>; both halves are empty for the empty part.\<close>

definition capitalize :: "(char \<Rightarrow> string) \<Rightarrow> string \<Rightarrow> string" where
  "capitalize upper part = (case part of [] \<Rightarrow> [] | c # cs \<Rightarrow> upper c @ cs)"

text \<open>Lines 224 to 227: the final fallback of \<^verbatim>\<open>getProviderName\<close>.\<close>

definition final_fallback :: "(char \<Rightarrow> string) \<Rightarrow> string \<Rightarrow> string" where
  "final_fallback upper providerName =
     js_join '' '' (map (capitalize upper) (js_split (CHR ''-'') providerName))"

text \<open>\<^verbatim>\<open>providerName.split('-')[1] || ''\<close>.\<close>

definition serviceKey_of :: "string \<Rightarrow> string" where
  "serviceKey_of providerName =
     (let parts = js_split (CHR ''-'') providerName
      in if 1 < length parts then parts ! 1 else [])"

subsection \<open>The icon\<close>

text \<open>
  The rendered element is either the \<^verbatim>\<open>ExternalLink\<close> icon or an icon component of the
  registry, always with the class \<^verbatim>\<open>h-4 w-4\<close>. The loop over
  \<^verbatim>\<open>Object.values(baseProviderConfig.services)\<close> returns at the first service whose
  \<^verbatim>\<open>providerId\<close> is the full name. \<^verbatim>\<open>parseProvider\<close> is called outside any \<^verbatim>\<open>try\<close>
  here, so its exception is the function's. When the read of line 173 finds an inherited
  member, the test of line 175 lets it pass, and the function throws a \<^verbatim>\<open>TypeError\<close>:
  for a name with a dash in \<^verbatim>\<open>Object.values(undefined)\<close>, for a name without one in the
  call of \<^verbatim>\<open>baseProviderConfig.icon\<close>, which is \<^verbatim>\<open>undefined\<close>.
\<close>

datatype jsx = ExternalLink | Icon icon_component

fun icon_of_services :: "string \<Rightarrow> oauth_service list \<Rightarrow> icon_component option" where
  "icon_of_services providerName [] = None"
| "icon_of_services providerName (service # rest) =
     (if providerId service = providerName then Some (service_icon service)
      else icon_of_services providerName rest)"

definition getProviderIcon :: "oauth_lib \<Rightarrow> string \<Rightarrow> js_error + jsx" where
  "getProviderIcon lib providerName =
     (case parseProvider lib providerName of
        Inl e \<Rightarrow> Inl e
      | Inr parsed \<Rightarrow>
          (case property_read (OAUTH_PROVIDERS lib) (baseProvider parsed) of
             Undefined \<Rightarrow> Inr ExternalLink
           | Inherited member \<Rightarrow> Inl (Thrown ''TypeError'')
           | Own baseProviderConfig \<Rightarrow>
               (case (if CHR ''-'' \<in> set providerName
                      then icon_of_services providerName
                             (map snd (services baseProviderConfig))
                      else None) of
                  Some icon \<Rightarrow> Inr (Icon icon)
                | None \<Rightarrow> Inr (Icon (provider_icon baseProviderConfig)))))"

subsection \<open>The name\<close>

text \<open>
  The loop of lines 208 to 212 over \<^verbatim>\<open>Object.entries(baseProviderConfig?.services || {})\<close>,
  returning the name of the first entry that matches.
\<close>

fun name_of_services ::
    "string \<Rightarrow> string \<Rightarrow> (string \<times> oauth_service) list \<Rightarrow> string option" where
  "name_of_services serviceKey providerName [] = None"
| "name_of_services serviceKey providerName ((key, service) # rest) =
     (if key = serviceKey \<or> key = providerName \<or> providerId service = providerName
      then Some (service_name service)
      else name_of_services serviceKey providerName rest)"

text \<open>
  The inner \<^verbatim>\<open>try\<close> of lines 201 to 221. The outer \<open>Some\<close> is a \<^verbatim>\<open>return\<close> from inside
  it, the outer \<open>None\<close> is falling out of it, either at its end or through the empty
  \<^verbatim>\<open>catch\<close>. The returned value is a string or \<^verbatim>\<open>undefined\<close> (the inner \<open>None\<close>): an
  inherited member has no \<^verbatim>\<open>services\<close>, so the loop runs over \<^verbatim>\<open>{}\<close>, and it is truthy,
  so line 217 returns its \<^verbatim>\<open>name\<close>.
\<close>

definition name_by_parsing :: "oauth_lib \<Rightarrow> string \<Rightarrow> string option option" where
  "name_by_parsing lib providerName =
     (case parseProvider lib providerName of
        Inl parseError \<Rightarrow> None
      | Inr parsed \<Rightarrow>
          (let baseProviderConfig = property_read (OAUTH_PROVIDERS lib) (baseProvider parsed);
               found =
                 (if CHR ''-'' \<in> set providerName
                  then name_of_services (serviceKey_of providerName) providerName
                         (case baseProviderConfig of
                            Own config \<Rightarrow> services config
                          | Inherited member \<Rightarrow> []
                          | Undefined \<Rightarrow> [])
                  else None)
           in case found of
                Some n \<Rightarrow> Some (Some n)
              | None \<Rightarrow>
                  (case baseProviderConfig of
                     Own config \<Rightarrow> Some (Some (provider_name config))
                   | Inherited member \<Rightarrow> Some (inherited_name member)
                   | Undefined \<Rightarrow> None)))"

text \<open>The result is a string, or \<^verbatim>\<open>undefined\<close> (\<open>None\<close>).\<close>

definition getProviderName ::
    "(char \<Rightarrow> string) \<Rightarrow> oauth_lib \<Rightarrow> props \<Rightarrow> string \<Rightarrow> string option" where
  "getProviderName upper lib p providerName =
     (let effectiveServiceId = getServiceId lib p
      in case getServiceByProviderAndId lib providerName effectiveServiceId of
           Inr service \<Rightarrow> Some (service_name service)
         | Inl error \<Rightarrow>
             (case name_by_parsing lib providerName of
                Some returned \<Rightarrow> returned
              | None \<Rightarrow> Some (final_fallback upper providerName)))"

section \<open>The Agent block's tool resolver\<close>

text \<open>
  \<^verbatim>\<open>AgentBlock.tools.config.tool\<close> of \<^verbatim>\<open>agent.ts\<close>. \<^verbatim>\<open>params\<close> is a record of the
  block's inputs, of which \<^verbatim>\<open>model\<close> is declared a string; the table \<^verbatim>\<open>MODEL_TOOLS\<close>
  of \<^verbatim>\<open>../consts\<close> maps a model name to a tool name and is a parameter. Both tests are
  JavaScript truthiness, and \<^verbatim>\<open>MODEL_TOOLS[model]\<close> is a property read as above: what is
  returned is a tool name of the table or an inherited member.
\<close>

datatype agent_error = No_model_selected | Invalid_model_selected string

definition effective_model :: "(string \<rightharpoonup> string) \<Rightarrow> string" where
  "effective_model params =
     (case params ''model'' of
        Some m \<Rightarrow> if m \<noteq> [] then m else ''gpt-4o''
      | None \<Rightarrow> ''gpt-4o'')"

definition tool ::
    "(string \<rightharpoonup> string) \<Rightarrow> (string \<rightharpoonup> string) \<Rightarrow> agent_error + string property" where
  "tool MODEL_TOOLS params =
     (let model = effective_model params
      in if model = [] then Inl No_model_selected
         else (case property_read MODEL_TOOLS model of
                 Undefined \<Rightarrow> Inl (Invalid_model_selected model)
               | Own t \<Rightarrow> if t = [] then Inl (Invalid_model_selected model) else Inr (Own t)
               | Inherited member \<Rightarrow> Inr (Inherited member)))"

section \<open>The code editor's drop handler\<close>

text \<open>
  \<^verbatim>\<open>handleDrop\<close> of \<^verbatim>\<open>code.tsx\<close>. The dragged payload is what
  \<^verbatim>\<open>JSON.parse(e.dataTransfer.getData('application/json'))\<close> makes of it: a syntax error,
  \<^verbatim>\<open>null\<close> (on which \<^verbatim>\<open>data.type\<close> throws), or a value with its \<^verbatim>\<open>type\<close> (when that is
  a string) and its \<^verbatim>\<open>connectionData?.sourceBlockId\<close> (when that is truthy). The second
  argument is \<^verbatim>\<open>textarea?.selectionStart\<close>, absent when the editor has no textarea.
\<close>

datatype drop_payload =
  InvalidJson
  | JsonNull
  | JsonValue "string option" "string option"

datatype drop_error = SyntaxError | TypeError

record code_editor =
  code :: string
  storeValue :: "string option"
  cursorPosition :: nat
  showTags :: bool
  activeSourceBlockId :: "string option"
  drop_errors :: "(string \<times> drop_error) list"

definition log_drop_error :: "drop_error \<Rightarrow> code_editor \<Rightarrow> code_editor" where
  "log_drop_error e ed =
     ed\<lparr>drop_errors := drop_errors ed @ [(''Failed to parse drop data:'', e)]\<rparr>"

text \<open>
  \<^verbatim>\<open>code.slice(0, n)\<close> and \<^verbatim>\<open>code.slice(n)\<close> for a natural number \<open>n\<close> are
  \<^term>\<open>take n\<close> and \<^term>\<open>drop n\<close>: both clamp at the length.
\<close>

definition handleDrop :: "drop_payload \<Rightarrow> nat option \<Rightarrow> code_editor \<Rightarrow> code_editor" where
  "handleDrop payload selectionStart ed =
     (case payload of
        InvalidJson \<Rightarrow> log_drop_error SyntaxError ed
      | JsonNull \<Rightarrow> log_drop_error TypeError ed
      | JsonValue type sourceBlockId \<Rightarrow>
          if type \<noteq> Some ''connectionBlock'' then ed
          else
            (let dropPosition =
                   (case selectionStart of Some n \<Rightarrow> n | None \<Rightarrow> length (code ed));
                 newValue = take dropPosition (code ed) @ ''<'' @ drop dropPosition (code ed);
                 ed1 = ed\<lparr>code := newValue, storeValue := Some newValue,
                          cursorPosition := dropPosition + 1, showTags := True\<rparr>
             in case sourceBlockId of
                  Some b \<Rightarrow> ed1\<lparr>activeSourceBlockId := Some b\<rparr>
                | None \<Rightarrow> ed1))"

section \<open>The lookup order as the specification words it\<close>










text \<open>
  The ids on which the lookup leaves the chain: no exact match, and the base that the id
  parses to is not registered but is the name of an inherited member of the registry
  object.
\<close>

definition inherited_base :: "oauth_lib \<Rightarrow> props \<Rightarrow> string \<Rightarrow> string option" where
  "inherited_base lib p providerName =
     (case getServiceByProviderAndId lib providerName (getServiceId lib p) of
        Inr service \<Rightarrow> None
      | Inl e \<Rightarrow>
          (case parseProvider lib providerName of
             Inl parseError \<Rightarrow> None
           | Inr parsed \<Rightarrow>
               (case OAUTH_PROVIDERS lib (baseProvider parsed) of
                  Some config \<Rightarrow> None
                | None \<Rightarrow>
                    if baseProvider parsed \<in> set Object_prototype
                    then Some (baseProvider parsed)
                    else None)))"

section \<open>A sample registry and sample states\<close>

text \<open>
  A small registry in the shape described above, with one base provider and two services,
  and a state of the selector with nothing selected. The theorems below are evaluated on
  them.
\<close>

definition sample_gmail :: oauth_service where
  "sample_gmail =
     \<lparr>service_name = ''Gmail'', providerId = ''google-email'', service_icon = ''GmailIcon''\<rparr>"

definition sample_sheets :: oauth_service where
  "sample_sheets =
     \<lparr>service_name = ''Google Sheets'', providerId = ''google-sheets'',
      service_icon = ''GoogleSheetsIcon''\<rparr>"

definition sample_google :: oauth_provider_config where
  "sample_google =
     \<lparr>provider_name = ''Google'', provider_icon = ''GoogleIcon'',
      services = [(''gmail'', sample_gmail), (''sheets'', sample_sheets)]\<rparr>"

definition sample_lib :: oauth_lib where
  "sample_lib =
     \<lparr>OAUTH_PROVIDERS = [''google'' \<mapsto> sample_google],
      getProviderIdFromServiceId =
        (\<lambda>sid. if sid = ''sheets'' then ''google-sheets'' else ''google-email''),
      getServiceByProviderAndId =
        (\<lambda>providerName sid.
           if providerName = ''google'' \<and> sid = ''gmail'' then Inr sample_gmail
           else if providerName = ''google'' \<and> sid = ''sheets'' then Inr sample_sheets
           else Inl (Thrown ''not found'')),
      getServiceIdFromScopes =
        (\<lambda>providerName scopes. if ''sheets.read'' \<in> set scopes then ''sheets'' else ''gmail''),
      parseProvider =
        (\<lambda>providerName.
           Inr \<lparr>baseProvider = (case js_split (CHR ''-'') providerName of
                                  [] \<Rightarrow> [] | base # rest \<Rightarrow> base)\<rparr>)\<rparr>"

definition sample_props :: props where
  "sample_props =
     \<lparr>prop_value = [], provider = ''google-sheets'', requiredScopes = [''sheets.read''],
      serviceId = None, label = ''Select credential'', disabled = False\<rparr>"

definition sample_selector :: selector where
  "sample_selector =
     \<lparr>selectedId = [], credentials = [], isLoading = False, onChange_calls = [],
      console_errors = []\<rparr>"

definition cred :: "string \<Rightarrow> bool \<Rightarrow> credential" where
  "cred i d = \<lparr>cred_id = i, cred_name = i, cred_provider = ''google-sheets'', isDefault = d\<rparr>"

definition sample_editor :: code_editor where
  "sample_editor =
     \<lparr>code = ''ab'', storeValue = None, cursorPosition = 0, showTags = False,
      activeSourceBlockId = None, drop_errors = []\<rparr>"

definition sample_tools :: "string \<rightharpoonup> string" where
  "sample_tools = [''gpt-4o'' \<mapsto> ''openai_chat'', ''deepseek-chat'' \<mapsto> ''deepseek_chat'']"

text \<open>
  A case mapping for the sample: the ASCII letters, and U+00DF, which becomes two code
  units.
\<close>

definition sample_upper :: "char \<Rightarrow> string" where
  "sample_upper c =
     (let n = (of_char c :: nat)
      in if 97 \<le> n \<and> n \<le> 122 then [char_of (n - 32)]
         else if n = 223 then ''SS''
         else [c])"

section \<open>Properties of the credential fetch\<close>

subsection \<open>Auxiliary facts\<close>

lemma find_filter_hd: "filter P xs \<noteq> [] \<Longrightarrow> find P xs = Some (hd (filter P xs))"
  by (induction xs) auto

lemma find_filter_Nil: "filter P xs = [] \<Longrightarrow> find P xs = None"
  by (induction xs) (auto split: if_splits)

lemma find_Some_mem: "find P xs = Some x \<Longrightarrow> list_ex (\<lambda>c. f c = f x) xs"
  by (induction xs) (auto split: if_splits)

lemma fetch_ok_unfold:
  assumes "fetch (credentials_url (getProviderId lib p)) = Response True (Some R)"
  shows "fetchCredentials lib p fetch st =
     (auto_select (selectedId st) R
        (reset_missing (selectedId st) R
           (st\<lparr>isLoading := True, credentials := R\<rparr>)))\<lparr>isLoading := False\<rparr>"
  using assms by (simp add: fetchCredentials_def Let_def)

lemma selectedId_reset_missing:
  "selectedId (reset_missing sel R st) =
     (if sel \<noteq> [] \<and> \<not> list_ex (\<lambda>cred. cred_id cred = sel) R then [] else selectedId st)"
  by (simp add: reset_missing_def)

lemma selectedId_auto_select:
  "selectedId (auto_select sel R st) =
     (if (sel = [] \<or> \<not> list_ex (\<lambda>cred. cred_id cred = sel) R) \<and> R \<noteq> []
      then (case find isDefault R of
              Some d \<Rightarrow> cred_id d
            | None \<Rightarrow> if length R = 1 then cred_id (R ! 0) else selectedId st)
      else selectedId st)"
  by (simp add: auto_select_def split: option.splits)

lemma onChange_reset_missing:
  "onChange_calls (reset_missing sel R st) =
     onChange_calls st @
       (if sel \<noteq> [] \<and> \<not> list_ex (\<lambda>cred. cred_id cred = sel) R then [[]] else [])"
  by (simp add: reset_missing_def)

lemma onChange_auto_select:
  "onChange_calls (auto_select sel R st) =
     onChange_calls st @
       (if (sel = [] \<or> \<not> list_ex (\<lambda>cred. cred_id cred = sel) R) \<and> R \<noteq> []
        then (case find isDefault R of
                Some d \<Rightarrow> [cred_id d]
              | None \<Rightarrow> if length R = 1 then [cred_id (R ! 0)] else [])
        else [])"
  by (simp add: auto_select_def split: option.splits)

lemma credentials_reset_missing: "credentials (reset_missing sel R st) = credentials st"
  by (simp add: reset_missing_def)

lemma credentials_auto_select: "credentials (auto_select sel R st) = credentials st"
  by (simp add: auto_select_def split: option.splits)

subsection \<open>Auto-selection\<close>

text \<open>
  C1, as the code has it. After a successful fetch of the list \<open>R\<close> in which the prior
  selection does not occur: if some credential of \<open>R\<close> is flagged \<^verbatim>\<open>isDefault\<close>, the final
  selection is the id of the first such credential in \<open>R\<close> (so of the only one, when there
  is exactly one); otherwise, if \<open>R\<close> has exactly one entry, it is that entry's id;
  otherwise it is the empty string.
\<close>

theorem auto_select_after_fetch:
  assumes ok: "fetch (credentials_url (getProviderId lib p)) = Response True (Some R)"
    and missing: "\<not> list_ex (\<lambda>c. cred_id c = selectedId st) R"
  shows "selectedId (fetchCredentials lib p fetch st) =
     (if filter isDefault R \<noteq> [] then cred_id (hd (filter isDefault R))
      else if length R = 1 then cred_id (R ! 0)
      else [])"
proof -
  note unfold = fetch_ok_unfold [where fetch = fetch and lib = lib and p = p, OF ok]
  show ?thesis
  proof (cases "filter isDefault R = []")
    case True
    then have none: "find isDefault R = None" by (rule find_filter_Nil)
    show ?thesis
    proof (cases "selectedId st = []")
      case True
      with none \<open>filter isDefault R = []\<close> missing show ?thesis
        by (simp add: unfold selectedId_auto_select selectedId_reset_missing)
    next
      case False
      with none \<open>filter isDefault R = []\<close> missing show ?thesis
        by (simp add: unfold selectedId_auto_select selectedId_reset_missing)
    qed
  next
    case False
    then have some: "find isDefault R = Some (hd (filter isDefault R))"
      by (rule find_filter_hd)
    from False have "R \<noteq> []" by auto
    with some False missing show ?thesis
      by (simp add: unfold selectedId_auto_select)
  qed
qed

text \<open>The theorem at a list with two defaults and nothing selected before: the first default wins.\<close>

theorem auto_select_after_fetch_witness:
  "selectedId (fetchCredentials sample_lib sample_props
       (\<lambda>url. Response True (Some [cred ''a'' False, cred ''b'' True, cred ''c'' True]))
       sample_selector) = ''b''"
  using auto_select_after_fetch
    [of "\<lambda>url. Response True (Some [cred ''a'' False, cred ''b'' True, cred ''c'' True])"
      sample_lib sample_props "[cred ''a'' False, cred ''b'' True, cred ''c'' True]"
      sample_selector]
  by (simp add: sample_selector_def cred_def)

text \<open>
  C1 as it is worded fails: with two credentials that are both flagged default and nothing
  selected before, there is not exactly one default and the list does not have exactly one
  entry, yet the selection after the fetch is the first credential's id, not the empty
  string.
\<close>

theorem two_defaults_counterexample:
  "length (filter isDefault [cred ''a'' True, cred ''b'' True]) = 2 \<and>
   \<not> list_ex (\<lambda>c. cred_id c = selectedId sample_selector)
       [cred ''a'' True, cred ''b'' True] \<and>
   selectedId (fetchCredentials sample_lib sample_props
       (\<lambda>url. Response True (Some [cred ''a'' True, cred ''b'' True])) sample_selector) = ''a''"
  by (simp add: fetchCredentials_def auto_select_def reset_missing_def sample_selector_def
      cred_def)

subsection \<open>Keeping the selection\<close>

text \<open>
  C2, as the code has it. After a successful fetch of the list \<open>R\<close>, if the prior selection
  is not the empty string and is the id of some credential of \<open>R\<close>, the selection is
  unchanged and \<^verbatim>\<open>onChange\<close> has not been called.
\<close>

theorem keep_selection:
  assumes ok: "fetch (credentials_url (getProviderId lib p)) = Response True (Some R)"
    and nonempty: "selectedId st \<noteq> []"
    and present: "list_ex (\<lambda>c. cred_id c = selectedId st) R"
  shows "selectedId (fetchCredentials lib p fetch st) = selectedId st \<and>
         onChange_calls (fetchCredentials lib p fetch st) = onChange_calls st"
proof -
  note unfold = fetch_ok_unfold [where fetch = fetch and lib = lib and p = p, OF ok]
  from nonempty present show ?thesis
    by (simp add: unfold selectedId_auto_select selectedId_reset_missing
        onChange_auto_select onChange_reset_missing)
qed

text \<open>The theorem at a selection that is still listed, beside a default credential.\<close>

theorem keep_selection_witness:
  "selectedId (fetchCredentials sample_lib sample_props
       (\<lambda>url. Response True (Some [cred ''a'' True, cred ''b'' False]))
       (sample_selector\<lparr>selectedId := ''b''\<rparr>)) = ''b'' \<and>
   onChange_calls (fetchCredentials sample_lib sample_props
       (\<lambda>url. Response True (Some [cred ''a'' True, cred ''b'' False]))
       (sample_selector\<lparr>selectedId := ''b''\<rparr>)) = []"
  using keep_selection
    [of "\<lambda>url. Response True (Some [cred ''a'' True, cred ''b'' False])"
      sample_lib sample_props "[cred ''a'' True, cred ''b'' False]"
      "sample_selector\<lparr>selectedId := ''b''\<rparr>"]
  by (simp add: sample_selector_def cred_def)

text \<open>
  C2 as it is worded fails for the empty selection: the guards of lines 78 and 88 test
  \<^verbatim>\<open>selectedId\<close> for truthiness, so an empty selection is never kept. With a credential
  whose id is the empty string in the list, the prior selection \<^verbatim>\<open>''\<close> does appear in the
  list, and still the default credential is selected and \<^verbatim>\<open>onChange\<close> is called.
\<close>

theorem empty_id_counterexample:
  "list_ex (\<lambda>c. cred_id c = selectedId sample_selector) [cred [] False, cred ''x'' True] \<and>
   selectedId sample_selector = [] \<and>
   selectedId (fetchCredentials sample_lib sample_props
       (\<lambda>url. Response True (Some [cred [] False, cred ''x'' True])) sample_selector) = ''x'' \<and>
   onChange_calls sample_selector = [] \<and>
   onChange_calls (fetchCredentials sample_lib sample_props
       (\<lambda>url. Response True (Some [cred [] False, cred ''x'' True])) sample_selector) = [''x'']"
  by (simp add: fetchCredentials_def auto_select_def reset_missing_def sample_selector_def
      cred_def)

subsection \<open>The selection is empty or listed\<close>

text \<open>
  C3. After every successful fetch, whatever the list \<open>R\<close> and the prior selection, the
  cached list is \<open>R\<close> and the selection is the empty string or the id of a credential of
  the cached list.
\<close>

theorem selection_invariant:
  assumes ok: "fetch (credentials_url (getProviderId lib p)) = Response True (Some R)"
  shows "credentials (fetchCredentials lib p fetch st) = R \<and>
         (selectedId (fetchCredentials lib p fetch st) = [] \<or>
          list_ex (\<lambda>c. cred_id c = selectedId (fetchCredentials lib p fetch st))
            (credentials (fetchCredentials lib p fetch st)))"
proof -
  note unfold = fetch_ok_unfold [where fetch = fetch and lib = lib and p = p, OF ok]
  have creds: "credentials (fetchCredentials lib p fetch st) = R"
    by (simp add: unfold credentials_auto_select credentials_reset_missing)
  have "selectedId (fetchCredentials lib p fetch st) = [] \<or>
        list_ex (\<lambda>c. cred_id c = selectedId (fetchCredentials lib p fetch st)) R"
  proof (cases "find isDefault R")
    case None
    then show ?thesis
      by (cases R) (auto simp: unfold selectedId_auto_select selectedId_reset_missing)
  next
    case (Some d)
    from find_Some_mem [OF Some, of cred_id] Some show ?thesis
      by (auto simp: unfold selectedId_auto_select selectedId_reset_missing)
  qed
  with creds show ?thesis by simp
qed

text \<open>
  The theorem at a prior selection that is no longer listed, with two credentials and no
  default: the selection is cleared.
\<close>

theorem selection_invariant_witness:
  "credentials (fetchCredentials sample_lib sample_props
       (\<lambda>url. Response True (Some [cred ''a'' False, cred ''b'' False]))
       (sample_selector\<lparr>selectedId := ''gone''\<rparr>)) = [cred ''a'' False, cred ''b'' False] \<and>
   (selectedId (fetchCredentials sample_lib sample_props
       (\<lambda>url. Response True (Some [cred ''a'' False, cred ''b'' False]))
       (sample_selector\<lparr>selectedId := ''gone''\<rparr>)) = [] \<or>
    list_ex (\<lambda>c. cred_id c = selectedId (fetchCredentials sample_lib sample_props
       (\<lambda>url. Response True (Some [cred ''a'' False, cred ''b'' False]))
       (sample_selector\<lparr>selectedId := ''gone''\<rparr>)))
      (credentials (fetchCredentials sample_lib sample_props
       (\<lambda>url. Response True (Some [cred ''a'' False, cred ''b'' False]))
       (sample_selector\<lparr>selectedId := ''gone''\<rparr>))))"
  by (rule selection_invariant) simp

subsection \<open>The intermediate empty value\<close>

text \<open>
  C8. When a successful fetch returns a list \<open>R\<close> in which the non-empty prior selection
  does not occur, \<^verbatim>\<open>onChange\<close> is first called with the empty string, and the call of the
  auto-selection (the first default's id, or the only entry's id) comes after it in the same
  fetch: two calls when a credential is auto-selected, one otherwise.
\<close>

theorem intermediate_empty_onChange:
  assumes ok: "fetch (credentials_url (getProviderId lib p)) = Response True (Some R)"
    and nonempty: "selectedId st \<noteq> []"
    and missing: "\<not> list_ex (\<lambda>c. cred_id c = selectedId st) R"
  shows "onChange_calls (fetchCredentials lib p fetch st) =
           onChange_calls st @ [[]] @
             (if filter isDefault R \<noteq> [] then [cred_id (hd (filter isDefault R))]
              else if length R = 1 then [cred_id (R ! 0)]
              else [])"
proof -
  note unfold = fetch_ok_unfold [where fetch = fetch and lib = lib and p = p, OF ok]
  show ?thesis
  proof (cases "filter isDefault R = []")
    case True
    then have "find isDefault R = None" by (rule find_filter_Nil)
    with True nonempty missing show ?thesis
      by (simp add: unfold onChange_auto_select onChange_reset_missing)
  next
    case False
    then have "find isDefault R = Some (hd (filter isDefault R))" by (rule find_filter_hd)
    moreover from False have "R \<noteq> []" by auto
    ultimately show ?thesis using False nonempty missing
      by (simp add: unfold onChange_auto_select onChange_reset_missing)
  qed
qed

text \<open>The theorem at a vanished selection and a list with a default: two calls, the empty one first.\<close>

theorem intermediate_empty_onChange_witness:
  "onChange_calls (fetchCredentials sample_lib sample_props
       (\<lambda>url. Response True (Some [cred ''a'' False, cred ''b'' True]))
       (sample_selector\<lparr>selectedId := ''gone''\<rparr>)) = [[], ''b'']"
  using intermediate_empty_onChange
    [of "\<lambda>url. Response True (Some [cred ''a'' False, cred ''b'' True])"
      sample_lib sample_props "[cred ''a'' False, cred ''b'' True]"
      "sample_selector\<lparr>selectedId := ''gone''\<rparr>"]
  by (simp add: sample_selector_def cred_def)

subsection \<open>Failed fetches\<close>

text \<open>
  C4, as the code has it. A fetch that throws (\<^verbatim>\<open>fetch\<close> rejects, or \<^verbatim>\<open>response.json()\<close>
  rejects) or whose response is not \<^verbatim>\<open>ok\<close> leaves the selection and the cached list as
  they were and does not call \<^verbatim>\<open>onChange\<close>. A fetch that throws writes one line with
  \<^verbatim>\<open>console.error\<close>; a response that is not \<^verbatim>\<open>ok\<close> writes none.
\<close>

theorem failed_fetch_atomic:
  assumes r: "fetch (credentials_url (getProviderId lib p)) = r"
    and failure: "r = NetworkError \<or> r = Response True None \<or> r = Response False body"
  shows "selectedId (fetchCredentials lib p fetch st) = selectedId st \<and>
         credentials (fetchCredentials lib p fetch st) = credentials st \<and>
         onChange_calls (fetchCredentials lib p fetch st) = onChange_calls st \<and>
         console_errors (fetchCredentials lib p fetch st) =
           console_errors st @
             (case r of
                NetworkError \<Rightarrow> [(''Error fetching credentials:'', FetchRejected)]
              | Response ok b \<Rightarrow>
                  if ok then [(''Error fetching credentials:'', JsonRejected)] else [])"
  using failure
proof (elim disjE)
  assume "r = NetworkError"
  with r show ?thesis by (simp add: fetchCredentials_def log_error_def)
next
  assume "r = Response True None"
  with r show ?thesis by (simp add: fetchCredentials_def log_error_def)
next
  assume "r = Response False body"
  with r show ?thesis by (simp add: fetchCredentials_def)
qed

text \<open>The theorem at a network failure, with a credential selected and cached before.\<close>

theorem failed_fetch_atomic_witness:
  "selectedId (fetchCredentials sample_lib sample_props (\<lambda>url. NetworkError)
       (sample_selector\<lparr>selectedId := ''a'', credentials := [cred ''a'' False]\<rparr>)) = ''a'' \<and>
   credentials (fetchCredentials sample_lib sample_props (\<lambda>url. NetworkError)
       (sample_selector\<lparr>selectedId := ''a'', credentials := [cred ''a'' False]\<rparr>))
     = [cred ''a'' False] \<and>
   onChange_calls (fetchCredentials sample_lib sample_props (\<lambda>url. NetworkError)
       (sample_selector\<lparr>selectedId := ''a'', credentials := [cred ''a'' False]\<rparr>)) = [] \<and>
   console_errors (fetchCredentials sample_lib sample_props (\<lambda>url. NetworkError)
       (sample_selector\<lparr>selectedId := ''a'', credentials := [cred ''a'' False]\<rparr>))
     = [(''Error fetching credentials:'', FetchRejected)]"
  using failed_fetch_atomic
    [of "\<lambda>url. NetworkError" sample_lib sample_props NetworkError None
      "sample_selector\<lparr>selectedId := ''a'', credentials := [cred ''a'' False]\<rparr>"]
  by (simp add: sample_selector_def)

text \<open>
  C4 as it is worded fails in its last part: the \<^verbatim>\<open>if (response.ok)\<close> of line 73 has no
  \<^verbatim>\<open>else\<close>, and \<^verbatim>\<open>console.error\<close> is called in the \<^verbatim>\<open>catch\<close> only, so a response
  that is not \<^verbatim>\<open>ok\<close> is not logged.
\<close>

theorem non_ok_not_logged_counterexample:
  "console_errors sample_selector = [] \<and>
   console_errors (fetchCredentials sample_lib sample_props (\<lambda>url. Response False None)
       sample_selector) = []"
  by (simp add: fetchCredentials_def sample_selector_def)

section \<open>Properties of the service id\<close>

text \<open>
  C7, as the code has it. The service id depends on the provider, the required scopes and
  the explicit service id only: two sets of properties that agree on these three give the
  same service id, whatever else differs. A non-empty explicit service id is returned
  verbatim; when it is absent or the empty string, the result is what
  \<^verbatim>\<open>getServiceIdFromScopes\<close> makes of the provider and the scopes.
\<close>

theorem service_id_resolution:
  "(provider a = provider b \<and> requiredScopes a = requiredScopes b \<and> serviceId a = serviceId b
      \<longrightarrow> getServiceId lib a = getServiceId lib b) \<and>
   (serviceId a = Some s \<and> s \<noteq> [] \<longrightarrow> getServiceId lib a = s) \<and>
   (serviceId a = None \<or> serviceId a = Some [] \<longrightarrow>
      getServiceId lib a = getServiceIdFromScopes lib (provider a) (requiredScopes a))"
proof (intro conjI impI)
  assume "provider a = provider b \<and> requiredScopes a = requiredScopes b \<and>
    serviceId a = serviceId b"
  then show "getServiceId lib a = getServiceId lib b"
    by (simp add: getServiceId_def split: option.split)
next
  assume "serviceId a = Some s \<and> s \<noteq> []"
  then show "getServiceId lib a = s"
    by (simp add: getServiceId_def)
next
  assume "serviceId a = None \<or> serviceId a = Some []"
  then show "getServiceId lib a = getServiceIdFromScopes lib (provider a) (requiredScopes a)"
    by (auto simp: getServiceId_def)
qed

text \<open>
  The theorem at an explicit service id, with and without other properties changed, and at
  an absent one.
\<close>

theorem service_id_resolution_witness:
  "getServiceId sample_lib (sample_props\<lparr>serviceId := Some ''gmail''\<rparr>) =
     getServiceId sample_lib
       (sample_props\<lparr>serviceId := Some ''gmail'', prop_value := ''x'', disabled := True\<rparr>) \<and>
   getServiceId sample_lib (sample_props\<lparr>serviceId := Some ''gmail''\<rparr>) = ''gmail'' \<and>
   getServiceId sample_lib sample_props = ''sheets''"
proof -
  let ?a = "sample_props\<lparr>serviceId := Some ''gmail''\<rparr>"
  let ?b = "sample_props\<lparr>serviceId := Some ''gmail'', prop_value := ''x'', disabled := True\<rparr>"
  have same: "provider ?a = provider ?b \<and> requiredScopes ?a = requiredScopes ?b \<and>
      serviceId ?a = serviceId ?b"
    by simp
  have given: "serviceId ?a = Some ''gmail'' \<and> ''gmail'' \<noteq> []"
    by simp
  have absent: "serviceId sample_props = None \<or> serviceId sample_props = Some []"
    by (simp add: sample_props_def)
  from same given
    service_id_resolution [where a = ?a and b = ?b and s = "''gmail''" and lib = sample_lib]
  have "getServiceId sample_lib ?a = getServiceId sample_lib ?b"
    and "getServiceId sample_lib ?a = ''gmail''"
    by blast+
  moreover from absent
    service_id_resolution [where a = sample_props and b = sample_props and lib = sample_lib]
  have "getServiceId sample_lib sample_props =
      getServiceIdFromScopes sample_lib (provider sample_props) (requiredScopes sample_props)"
    by blast
  then have "getServiceId sample_lib sample_props = ''sheets''"
    by (simp add: sample_props_def sample_lib_def)
  ultimately show ?thesis by blast
qed

text \<open>
  C7 as it is worded fails for the empty string: \<^verbatim>\<open>if (serviceId)\<close> is a truthiness test,
  so an explicit service id \<^verbatim>\<open>''\<close> is not returned verbatim; the scopes decide.
\<close>

theorem empty_service_id_counterexample:
  "serviceId (sample_props\<lparr>serviceId := Some []\<rparr>) = Some [] \<and>
   getServiceId sample_lib (sample_props\<lparr>serviceId := Some []\<rparr>) = ''sheets''"
  by (simp add: getServiceId_def sample_props_def sample_lib_def)

section \<open>Properties of the name and icon lookups\<close>

subsection \<open>Auxiliary facts\<close>












lemma effective_model_nonempty: "effective_model params \<noteq> []"
  by (simp add: effective_model_def split: option.split)

subsection \<open>The order of the fallbacks\<close>



subsection \<open>Where the lookups fail\<close>

text \<open>
  C6, against the code. \<^verbatim>\<open>getProviderIcon\<close> returns an icon exactly when
  \<^verbatim>\<open>parseProvider\<close> returns and the base it returns is registered or is not the name of an
  inherited member of the registry object; an exception of \<^verbatim>\<open>parseProvider\<close> is the
  function's own, and at an unregistered inherited base it throws a \<^verbatim>\<open>TypeError\<close>.
  \<^verbatim>\<open>getProviderName\<close> returns \<^verbatim>\<open>undefined\<close> exactly on the ids whose lookup ends at the
  inherited member \<^verbatim>\<open>__proto__\<close>. So the lookups are not total on the non-empty ids.
\<close>

theorem lookups_outcome:
  "((\<exists>icon. getProviderIcon lib providerName = Inr icon) \<longleftrightarrow>
      (\<exists>parsed. parseProvider lib providerName = Inr parsed \<and>
         (OAUTH_PROVIDERS lib (baseProvider parsed) \<noteq> None \<or>
          baseProvider parsed \<notin> set Object_prototype))) \<and>
   (parseProvider lib providerName = Inl e \<longrightarrow> getProviderIcon lib providerName = Inl e) \<and>
   (parseProvider lib providerName = Inr parsed \<and>
    OAUTH_PROVIDERS lib (baseProvider parsed) = None \<and>
    baseProvider parsed \<in> set Object_prototype
      \<longrightarrow> getProviderIcon lib providerName = Inl (Thrown ''TypeError'')) \<and>
   (getProviderName upper lib p providerName = None \<longleftrightarrow>
      inherited_base lib p providerName = Some ''__proto__'')"
proof (intro conjI impI)
  show "(\<exists>icon. getProviderIcon lib providerName = Inr icon) \<longleftrightarrow>
      (\<exists>parsed. parseProvider lib providerName = Inr parsed \<and>
         (OAUTH_PROVIDERS lib (baseProvider parsed) \<noteq> None \<or>
          baseProvider parsed \<notin> set Object_prototype))"
  proof (cases "parseProvider lib providerName")
    case (Inl parseError)
    then show ?thesis by (simp add: getProviderIcon_def)
  next
    case (Inr parsed)
    then show ?thesis
      by (cases "OAUTH_PROVIDERS lib (baseProvider parsed)")
        (auto simp: getProviderIcon_def property_read_def split: option.splits)
  qed
next
  assume "parseProvider lib providerName = Inl e"
  then show "getProviderIcon lib providerName = Inl e"
    by (simp add: getProviderIcon_def)
next
  assume "parseProvider lib providerName = Inr parsed \<and>
    OAUTH_PROVIDERS lib (baseProvider parsed) = None \<and>
    baseProvider parsed \<in> set Object_prototype"
  then show "getProviderIcon lib providerName = Inl (Thrown ''TypeError'')"
    by (simp add: getProviderIcon_def property_read_def)
next
  have proto: "''__proto__'' \<in> set Object_prototype"
    by (simp add: Object_prototype_def)
  show "getProviderName upper lib p providerName = None \<longleftrightarrow>
      inherited_base lib p providerName = Some ''__proto__''"
  proof (cases "getServiceByProviderAndId lib providerName (getServiceId lib p)")
    case (Inr service)
    then show ?thesis
      by (simp add: getProviderName_def inherited_base_def)
  next
    case (Inl error)
    show ?thesis
    proof (cases "parseProvider lib providerName")
      case (Inl parseError)
      with \<open>getServiceByProviderAndId lib providerName (getServiceId lib p) = Inl error\<close>
      show ?thesis
        by (simp add: getProviderName_def inherited_base_def name_by_parsing_def)
    next
      case (Inr parsed)
      with \<open>getServiceByProviderAndId lib providerName (getServiceId lib p) = Inl error\<close>
        proto
      show ?thesis
        by (cases "OAUTH_PROVIDERS lib (baseProvider parsed)")
          (auto simp: getProviderName_def inherited_base_def name_by_parsing_def
            property_read_def inherited_name_def Let_def split: option.splits if_splits)
    qed
  qed
qed

text \<open>
  The theorem at the inherited members \<^verbatim>\<open>constructor\<close> and \<^verbatim>\<open>__proto__\<close>, where the
  lookups fail, and at a registered service, where they do not.
\<close>

theorem lookups_outcome_witness:
  "getProviderIcon sample_lib ''constructor'' = Inl (Thrown ''TypeError'') \<and>
   getProviderIcon sample_lib ''__proto__'' = Inl (Thrown ''TypeError'') \<and>
   getProviderName sample_upper sample_lib sample_props ''__proto__'' = None \<and>
   (\<exists>icon. getProviderIcon sample_lib ''google-sheets'' = Inr icon)"
proof -
  have parses:
    "parseProvider sample_lib ''constructor'' = Inr \<lparr>baseProvider = ''constructor''\<rparr>"
    "parseProvider sample_lib ''__proto__'' = Inr \<lparr>baseProvider = ''__proto__''\<rparr>"
    "parseProvider sample_lib ''google-sheets'' = Inr \<lparr>baseProvider = ''google''\<rparr>"
    by (simp_all add: sample_lib_def)
  have registry:
    "OAUTH_PROVIDERS sample_lib ''constructor'' = None"
    "OAUTH_PROVIDERS sample_lib ''__proto__'' = None"
    "OAUTH_PROVIDERS sample_lib ''google'' \<noteq> None"
    by (simp_all add: sample_lib_def)
  have members:
    "''constructor'' \<in> set Object_prototype" "''__proto__'' \<in> set Object_prototype"
    by (simp_all add: Object_prototype_def)
  have base: "inherited_base sample_lib sample_props ''__proto__'' = Some ''__proto__''"
    by code_simp
  from parses(1) registry(1) members(1)
    lookups_outcome [where lib = sample_lib and providerName = "''constructor''"
      and parsed = "\<lparr>baseProvider = ''constructor''\<rparr>"]
  have 1: "getProviderIcon sample_lib ''constructor'' = Inl (Thrown ''TypeError'')"
    by simp
  from parses(2) registry(2) members(2)
    lookups_outcome [where lib = sample_lib and providerName = "''__proto__''"
      and parsed = "\<lparr>baseProvider = ''__proto__''\<rparr>"]
  have 2: "getProviderIcon sample_lib ''__proto__'' = Inl (Thrown ''TypeError'')"
    by simp
  from base
    lookups_outcome [where lib = sample_lib and providerName = "''__proto__''"
      and upper = sample_upper and p = sample_props]
  have 3: "getProviderName sample_upper sample_lib sample_props ''__proto__'' = None"
    by simp
  from parses(3) registry(3)
    lookups_outcome [where lib = sample_lib and providerName = "''google-sheets''"]
  have 4: "\<exists>icon. getProviderIcon sample_lib ''google-sheets'' = Inr icon"
    by simp
  from 1 2 3 4 show ?thesis by blast
qed

section \<open>Properties of the tool resolver\<close>

text \<open>
  C9, against the code. The resolver never throws \<^verbatim>\<open>No model selected\<close>: the effective
  model is \<^verbatim>\<open>gpt-4o\<close> when \<^verbatim>\<open>params.model\<close> is absent or empty and \<^verbatim>\<open>params.model\<close>
  otherwise, so it is never falsy. For a key of the table it returns the table's tool name,
  or throws \<^verbatim>\<open>Invalid model selected\<close> if that name is the empty string. For a model that
  is not a key it throws \<^verbatim>\<open>Invalid model selected\<close>, except when the model is the name of
  an inherited member of the table object: then it returns that member and does not throw.
\<close>

theorem tool_resolver:
  "tool MODEL_TOOLS params \<noteq> Inl No_model_selected \<and>
   (params ''model'' = None \<or> params ''model'' = Some []
      \<longrightarrow> effective_model params = ''gpt-4o'') \<and>
   (\<forall>m. params ''model'' = Some m \<and> m \<noteq> [] \<longrightarrow> effective_model params = m) \<and>
   (\<forall>t. MODEL_TOOLS (effective_model params) = Some t \<and> t \<noteq> [] \<longrightarrow>
      tool MODEL_TOOLS params = Inr (Own t)) \<and>
   (MODEL_TOOLS (effective_model params) = Some [] \<longrightarrow>
      tool MODEL_TOOLS params = Inl (Invalid_model_selected (effective_model params))) \<and>
   (effective_model params \<notin> dom MODEL_TOOLS \<and>
    effective_model params \<notin> set Object_prototype \<longrightarrow>
      tool MODEL_TOOLS params = Inl (Invalid_model_selected (effective_model params))) \<and>
   (effective_model params \<notin> dom MODEL_TOOLS \<and>
    effective_model params \<in> set Object_prototype \<longrightarrow>
      tool MODEL_TOOLS params = Inr (Inherited (effective_model params)))"
proof (intro conjI allI impI)
  show "tool MODEL_TOOLS params \<noteq> Inl No_model_selected"
    by (simp add: tool_def Let_def effective_model_nonempty property_read_def
        split: option.split property.split)
next
  assume "params ''model'' = None \<or> params ''model'' = Some []"
  then show "effective_model params = ''gpt-4o''"
    by (auto simp: effective_model_def)
next
  fix m assume "params ''model'' = Some m \<and> m \<noteq> []"
  then show "effective_model params = m"
    by (simp add: effective_model_def)
next
  fix t assume "MODEL_TOOLS (effective_model params) = Some t \<and> t \<noteq> []"
  then show "tool MODEL_TOOLS params = Inr (Own t)"
    by (simp add: tool_def Let_def effective_model_nonempty property_read_def)
next
  assume "MODEL_TOOLS (effective_model params) = Some []"
  then show "tool MODEL_TOOLS params = Inl (Invalid_model_selected (effective_model params))"
    by (simp add: tool_def Let_def effective_model_nonempty property_read_def)
next
  assume "effective_model params \<notin> dom MODEL_TOOLS \<and>
    effective_model params \<notin> set Object_prototype"
  then have "MODEL_TOOLS (effective_model params) = None"
    and "effective_model params \<notin> set Object_prototype"
    by auto
  then show "tool MODEL_TOOLS params = Inl (Invalid_model_selected (effective_model params))"
    by (simp add: tool_def Let_def effective_model_nonempty property_read_def)
next
  assume "effective_model params \<notin> dom MODEL_TOOLS \<and>
    effective_model params \<in> set Object_prototype"
  then have "MODEL_TOOLS (effective_model params) = None"
    and "effective_model params \<in> set Object_prototype"
    by auto
  then show "tool MODEL_TOOLS params = Inr (Inherited (effective_model params))"
    by (simp add: tool_def Let_def effective_model_nonempty property_read_def)
qed

text \<open>
  The theorem at no model, at a model of the sample table, at an unknown model, and at the
  model \<^verbatim>\<open>constructor\<close>, which is not a key of the sample table and is not rejected.
\<close>

theorem tool_resolver_witness:
  "tool sample_tools Map.empty = Inr (Own ''openai_chat'') \<and>
   tool sample_tools [''model'' \<mapsto> ''deepseek-chat''] = Inr (Own ''deepseek_chat'') \<and>
   tool sample_tools [''model'' \<mapsto> ''unknown''] = Inl (Invalid_model_selected ''unknown'') \<and>
   ''constructor'' \<notin> dom sample_tools \<and>
   tool sample_tools [''model'' \<mapsto> ''constructor''] = Inr (Inherited ''constructor'')"
proof -
  note r = tool_resolver [where MODEL_TOOLS = sample_tools]
  have 1: "effective_model Map.empty = ''gpt-4o''"
    using r [of Map.empty] by simp
  have 2: "effective_model [''model'' \<mapsto> ''deepseek-chat''] = ''deepseek-chat''"
    using r [of "[''model'' \<mapsto> ''deepseek-chat'']"] by simp
  have 3: "effective_model [''model'' \<mapsto> ''unknown''] = ''unknown''"
    using r [of "[''model'' \<mapsto> ''unknown'']"] by simp
  have 4: "effective_model [''model'' \<mapsto> ''constructor''] = ''constructor''"
    using r [of "[''model'' \<mapsto> ''constructor'']"] by simp
  have keys: "''unknown'' \<notin> dom sample_tools" "''constructor'' \<notin> dom sample_tools"
    by (simp_all add: sample_tools_def)
  have members: "''unknown'' \<notin> set Object_prototype" "''constructor'' \<in> set Object_prototype"
    by (simp_all add: Object_prototype_def)
  have "tool sample_tools Map.empty = Inr (Own ''openai_chat'')"
    using r [of Map.empty] 1 by (simp add: sample_tools_def)
  moreover have "tool sample_tools [''model'' \<mapsto> ''deepseek-chat''] = Inr (Own ''deepseek_chat'')"
    using r [of "[''model'' \<mapsto> ''deepseek-chat'']"] 2 by (simp add: sample_tools_def)
  moreover have "tool sample_tools [''model'' \<mapsto> ''unknown'']
      = Inl (Invalid_model_selected ''unknown'')"
    using r [of "[''model'' \<mapsto> ''unknown'']"] 3 keys(1) members(1) by simp
  moreover have "tool sample_tools [''model'' \<mapsto> ''constructor'']
      = Inr (Inherited ''constructor'')"
    using r [of "[''model'' \<mapsto> ''constructor'']"] 4 keys(2) members(2) by simp
  ultimately show ?thesis using keys(2) by blast
qed

section \<open>Properties of the drop handler\<close>

text \<open>
  C10. For a payload of type \<^verbatim>\<open>connectionBlock\<close> and a drop position \<open>n\<close> within the
  code (the textarea's \<^verbatim>\<open>selectionStart\<close>, or the length of the code without one), the
  new code is the first \<open>n\<close> characters, one \<^verbatim>\<open><\<close>, and the remaining characters: it is
  one character longer, and every character of the old code is kept, in order. For a
  payload that is not valid JSON, is \<^verbatim>\<open>null\<close>, or has another type, the code is unchanged.
\<close>

theorem drop_inserts_tag:
  assumes position: "n = (case selectionStart of Some k \<Rightarrow> k | None \<Rightarrow> length (code ed))"
    and range: "n \<le> length (code ed)"
  shows "code (handleDrop (JsonValue (Some ''connectionBlock'') sourceBlockId) selectionStart ed)
           = take n (code ed) @ ''<'' @ drop n (code ed) \<and>
         length (take n (code ed)) = n \<and>
         length (code (handleDrop (JsonValue (Some ''connectionBlock'') sourceBlockId)
                   selectionStart ed)) = length (code ed) + 1 \<and>
         (\<forall>i < n. code (handleDrop (JsonValue (Some ''connectionBlock'') sourceBlockId)
                     selectionStart ed) ! i = code ed ! i) \<and>
         code (handleDrop (JsonValue (Some ''connectionBlock'') sourceBlockId)
                selectionStart ed) ! n = CHR ''<'' \<and>
         (\<forall>i. n \<le> i \<and> i < length (code ed) \<longrightarrow>
              code (handleDrop (JsonValue (Some ''connectionBlock'') sourceBlockId)
                selectionStart ed) ! Suc i = code ed ! i) \<and>
         (payload = InvalidJson \<or> payload = JsonNull \<or>
          (payload = JsonValue type sourceBlockId \<and> type \<noteq> Some ''connectionBlock'')
            \<longrightarrow> code (handleDrop payload selectionStart ed) = code ed)"
proof -
  let ?new = "code (handleDrop (JsonValue (Some ''connectionBlock'') sourceBlockId)
                selectionStart ed)"
  have new: "?new = take n (code ed) @ ''<'' @ drop n (code ed)"
    using position by (simp add: handleDrop_def Let_def split: option.split)
  from range have len: "length (take n (code ed)) = n" by simp
  have grow: "length ?new = length (code ed) + 1"
    using range by (simp add: new)
  have before: "\<forall>i < n. ?new ! i = code ed ! i"
    using range by (simp add: new nth_append)
  have at: "?new ! n = CHR ''<''"
    using range by (simp add: new nth_append)
  have after: "\<forall>i. n \<le> i \<and> i < length (code ed) \<longrightarrow> ?new ! Suc i = code ed ! i"
  proof (intro allI impI)
    fix i assume i: "n \<le> i \<and> i < length (code ed)"
    then have "Suc i - n = Suc (i - n)" by arith
    with i range show "?new ! Suc i = code ed ! i"
      by (simp add: new nth_append)
  qed
  have other: "payload = InvalidJson \<or> payload = JsonNull \<or>
      (payload = JsonValue type sourceBlockId \<and> type \<noteq> Some ''connectionBlock'')
        \<longrightarrow> code (handleDrop payload selectionStart ed) = code ed"
    by (auto simp: handleDrop_def log_drop_error_def)
  from new len grow before at after other show ?thesis by blast
qed

text \<open>
  The theorem at a drop in the middle, at a drop without a textarea, and at a payload that
  is not valid JSON.
\<close>

theorem drop_inserts_tag_witness:
  "code (handleDrop (JsonValue (Some ''connectionBlock'') (Some ''block-1'')) (Some 1)
          sample_editor) = ''a<b'' \<and>
   code (handleDrop (JsonValue (Some ''connectionBlock'') None) None sample_editor) = ''ab<'' \<and>
   code (handleDrop InvalidJson (Some 1) sample_editor) = ''ab''"
proof -
  have 1: "code (handleDrop (JsonValue (Some ''connectionBlock'') (Some ''block-1'')) (Some 1)
          sample_editor) = ''a<b''"
    using drop_inserts_tag [where n = 1 and selectionStart = "Some 1" and ed = sample_editor
        and sourceBlockId = "Some ''block-1''" and payload = InvalidJson]
    by (simp add: sample_editor_def)
  have 2: "code (handleDrop (JsonValue (Some ''connectionBlock'') None) None sample_editor)
      = ''ab<''"
    using drop_inserts_tag [where n = 2 and selectionStart = None and ed = sample_editor
        and sourceBlockId = None and payload = InvalidJson]
    by (simp add: sample_editor_def)
  have 3: "code (handleDrop InvalidJson (Some 1) sample_editor) = ''ab''"
    using drop_inserts_tag [where n = 1 and selectionStart = "Some 1" and ed = sample_editor
        and sourceBlockId = "Some ''block-1''" and payload = InvalidJson]
    by (simp add: sample_editor_def)
  from 1 2 3 show ?thesis by blast
qed

end
